theory Spec2Isabelle
  imports Main "HOL-Library.Multiset"
begin

section \<open>The context registry of the MCP server (src/context-manager.ts)\<close>

text \<open>
  The class \<open>ContextManager\<close> keeps context descriptors in a JavaScript \<open>Map\<close>
  keyed by the descriptor's id. It is filled once from a directory of YAML and JSON files
  when the object is constructed, answers four read queries, and accepts registrations
  at run time.

  Conventions of the embedding:
  \<^item> a JavaScript string is a \<open>string\<close>: its characters in an encoding that keeps
    ASCII as it is, such as UTF-8;
  \<^item> a value that comes out of a parser is a \<open>json\<close> value, whatever the source declares
    it to be: nothing checks it at run time. The parameters of the public methods have
    their declared types;
  \<^item> \<open>undefined\<close> is \<open>None\<close>, and so is the \<open>null\<close> that a method returns;
  \<^item> a thrown exception (for an \<open>async\<close> method: a rejected promise) is \<open>Inl e\<close>;
  \<^item> the mutable object and the output of the module-level logger are one state record,
    passed in and returned updated, also when an exception is thrown: what was written
    before the throw stays written;
  \<^item> the operations of \<open>fs\<close>, \<open>path\<close>, \<open>yaml\<close>, \<open>JSON\<close> and of
    \<open>@solana/web3.js\<close>, and the case mapping of strings, are not code of this
    repository: they are the fields of a record of externals that every function using
    them takes as its first argument.
\<close>

subsection \<open>Data model\<close>

text \<open>\<open>enum ContextType\<close>: seven members, each with its string.\<close>

datatype ContextType =
  DEX | NFT_MARKETPLACE | ORACLE | GOVERNANCE | SOCIAL | IDENTITY | STORAGE

fun ContextType_value :: "ContextType \<Rightarrow> string" where
  "ContextType_value DEX = ''dex''"
| "ContextType_value NFT_MARKETPLACE = ''nft_marketplace''"
| "ContextType_value ORACLE = ''oracle''"
| "ContextType_value GOVERNANCE = ''governance''"
| "ContextType_value SOCIAL = ''social''"
| "ContextType_value IDENTITY = ''identity''"
| "ContextType_value STORAGE = ''storage''"

text \<open>
  The values at run time that a JSON or YAML document denotes. A number is kept as the
  text that \<open>Number.prototype.toString\<close> gives it: two numbers are the same key of a
  \<open>Map\<close> exactly when these texts are equal. An object is the list of its properties.
\<close>

datatype json =
  JNull | JBool bool | JNum string | JStr string | JArr "json list" | JObj "(string \<times> json) list"

text \<open>
  \<open>v.p\<close> for a value \<open>v\<close> that is not \<open>null\<close> and a property \<open>p\<close> among \<open>id\<close>,
  \<open>name\<close>, \<open>type\<close> and \<open>capabilities\<close>, the ones this class reads: a value that is
  not an object has none of them. On \<open>null\<close> the read throws a \<open>TypeError\<close>.
\<close>

definition property :: "json \<Rightarrow> string \<Rightarrow> json option" where
  "property v p = (case v of JObj properties \<Rightarrow> map_of properties p | _ \<Rightarrow> None)"

text \<open>Truthiness, as \<open>||\<close> tests it.\<close>

definition truthy :: "json \<Rightarrow> bool" where
  "truthy v =
     (case v of
        JNull \<Rightarrow> False
      | JBool b \<Rightarrow> b
      | JNum n \<Rightarrow> n \<noteq> ''0'' \<and> n \<noteq> ''NaN''
      | JStr s \<Rightarrow> s \<noteq> []
      | JArr xs \<Rightarrow> True
      | JObj properties \<Rightarrow> True)"

text \<open>
  \<open>interface ContextDefinition\<close>: the declared type of the parameter of
  \<open>registerContext\<close>. The fields \<open>id\<close> and \<open>type\<close> carry a prime: \<open>id\<close> is the
  identity function of HOL. Fields marked \<open>?\<close> in the interface are options.
\<close>

record ContextDefinition =
  id' :: string
  name :: string
  description :: string
  type' :: ContextType
  capabilities :: "string list"
  endpoint :: "string option"
  pubkey :: "string option"
  authRequired :: bool
  schema :: "(string \<times> json) list option"

text \<open>The object that a value of the declared type is at run time.\<close>

definition object_of :: "ContextDefinition \<Rightarrow> json" where
  "object_of d =
     JObj ([(''id'', JStr (id' d)), (''name'', JStr (name d)),
            (''description'', JStr (description d)),
            (''type'', JStr (ContextType_value (type' d))),
            (''capabilities'', JArr (map JStr (capabilities d)))]
           @ (case endpoint d of None \<Rightarrow> [] | Some e \<Rightarrow> [(''endpoint'', JStr e)])
           @ (case pubkey d of None \<Rightarrow> [] | Some p \<Rightarrow> [(''pubkey'', JStr p)])
           @ [(''authRequired'', JBool (authRequired d))]
           @ (case schema d of None \<Rightarrow> [] | Some s \<Rightarrow> [(''schema'', JObj s)]))"

text \<open>A \<open>PublicKey\<close> of web3.js holds the key as a big number (\<open>_bn\<close>).\<close>

datatype PublicKey = PublicKey (bn: nat)

text \<open>A \<open>Connection\<close> is built from the RPC endpoint; the registry only stores it.\<close>

datatype Connection = Connection string

text \<open>
  Exceptions: the error class and a text. For an error of a library the text is its
  message; for a \<open>TypeError\<close> of the language it is the expression that threw.
\<close>

datatype js_error = SyntaxError string | TypeError string | SystemError string | Error string

text \<open>
  What the logger received. Each constructor is one call site of \<open>logger\<close> in
  \<open>context-manager.ts\<close>, with the values interpolated into its message:
  \<^item> \<open>Warn_path_missing p\<close>: \<^verbatim>\<open>logger.warn(`Context path ${p} does not exist`)\<close>
  \<^item> \<open>Info_loaded n p\<close>: \<^verbatim>\<open>logger.info(`Loaded ${n} context definitions from ${p}`)\<close>
  \<^item> \<open>Error_load e\<close>: \<^verbatim>\<open>logger.error('Failed to load context definitions:', e)\<close>
  \<^item> \<open>Info_registered nm ty k\<close>:
    \<^verbatim>\<open>logger.info(`Registered new context: ${nm} (${ty}) with ID ${k.toString()}`)\<close>
  \<^item> \<open>Error_register nm e\<close>: \<^verbatim>\<open>logger.error(`Error registering context ${nm}:`, e)\<close>
\<close>

datatype log_entry =
  Warn_path_missing string
| Info_loaded nat string
| Error_load js_error
| Info_registered string ContextType PublicKey
| Error_register string js_error

subsection \<open>The JavaScript \<open>Map\<close>\<close>

text \<open>
  A \<open>Map\<close> iterates in insertion order, and \<open>set\<close> on a key that is present replaces
  the value where it stands; a new key goes to the end. Hence an association list. A key
  is any value or \<open>undefined\<close>.

  Keys are compared by \<open>SameValueZero\<close>: strings, numbers, booleans, \<open>null\<close> and
  \<open>undefined\<close> by value, arrays and objects by identity. The only arrays and objects
  that this class passes as a key are ids inside a value that a parser has just built,
  so they are identical to no key of the map: the second argument of \<open>sameValueZero\<close>
  is the key that is passed, the first a key of the map.
\<close>

type_synonym js_key = "json option"

type_synonym 'v js_map = "(js_key \<times> 'v) list"

definition is_reference :: "js_key \<Rightarrow> bool" where
  "is_reference k =
     (case k of Some (JArr xs) \<Rightarrow> True | Some (JObj properties) \<Rightarrow> True | _ \<Rightarrow> False)"

definition sameValueZero :: "js_key \<Rightarrow> js_key \<Rightarrow> bool" where
  "sameValueZero stored k = (\<not> is_reference k \<and> stored = k)"

primrec Map_set :: "js_key \<Rightarrow> 'v \<Rightarrow> 'v js_map \<Rightarrow> 'v js_map" where
  "Map_set k v [] = [(k, v)]"
| "Map_set k v (p # ps) =
     (if sameValueZero (fst p) k then (k, v) # ps else p # Map_set k v ps)"

primrec Map_get :: "'v js_map \<Rightarrow> js_key \<Rightarrow> 'v option" where
  "Map_get [] k = None"
| "Map_get (p # ps) k = (if sameValueZero (fst p) k then Some (snd p) else Map_get ps k)"

definition Map_values :: "'v js_map \<Rightarrow> 'v list" where
  "Map_values m = map snd m"

subsection \<open>Strings\<close>

text \<open>\<open>String.prototype.endsWith\<close>.\<close>

definition endsWith :: "string \<Rightarrow> string \<Rightarrow> bool" where
  "endsWith s t = (length t \<le> length s \<and> drop (length s - length t) s = t)"

subsection \<open>The state and the externals\<close>

text \<open>
  The three private fields of the class, and \<open>logged\<close>: what the logger has received so
  far, oldest first. The map is declared \<open>Map<string, ContextDefinition>\<close>; it holds
  what was put into it.
\<close>

record ContextManager =
  connection :: Connection
  contexts :: "json js_map"
  contextPath :: string
  logged :: "log_entry list"

text \<open>
  The library operations the class calls. \<open>fs.existsSync\<close> never throws; the others
  may. The two parsers return the value the text denotes, or throw; \<open>JNull\<close> stands
  for a result \<open>null\<close> or \<open>undefined\<close>. \<open>PublicKey_new\<close> is
  \<^verbatim>\<open>new PublicKey(s)\<close> on a string. \<open>String_toLowerCase\<close> is
  \<open>String.prototype.toLowerCase\<close> on the strings that have a character outside ASCII.
\<close>

record externals =
  fs_existsSync :: "string \<Rightarrow> bool"
  fs_readdirSync :: "string \<Rightarrow> js_error + string list"
  fs_readFileSync :: "string \<Rightarrow> js_error + string"
  path_join :: "string \<Rightarrow> string \<Rightarrow> string"
  JSON_parse :: "string \<Rightarrow> js_error + json"
  yaml_parse :: "string \<Rightarrow> js_error + json"
  PublicKey_new :: "string \<Rightarrow> js_error + PublicKey"
  String_toLowerCase :: "string \<Rightarrow> string"

text \<open>
  \<open>String.prototype.toLowerCase\<close>. On a string of ASCII characters it maps the letters
  \<open>A\<close> to \<open>Z\<close> to \<open>a\<close> to \<open>z\<close> and leaves every other character as it is; on any
  other string it is what the run time makes of it.
\<close>

definition toLowerCase_ascii :: "char \<Rightarrow> char" where
  "toLowerCase_ascii c =
     (case map_of (zip ''ABCDEFGHIJKLMNOPQRSTUVWXYZ'' ''abcdefghijklmnopqrstuvwxyz'') c of
        Some l \<Rightarrow> l
      | None \<Rightarrow> c)"

definition is_ascii :: "char \<Rightarrow> bool" where
  "is_ascii c = (of_char c < (128 :: nat))"

definition toLowerCase :: "externals \<Rightarrow> string \<Rightarrow> string" where
  "toLowerCase ext s =
     (if list_all is_ascii s then map toLowerCase_ascii s else String_toLowerCase ext s)"

text \<open>A method body: it runs on the state and returns a value or throws.\<close>

type_synonym 'a js = "ContextManager \<Rightarrow> (js_error + 'a) \<times> ContextManager"

text \<open>\<^verbatim>\<open>try { body } catch (error) { handler }\<close>\<close>

definition try_catch :: "'a js \<Rightarrow> (js_error \<Rightarrow> 'a js) \<Rightarrow> 'a js" where
  "try_catch body handler m =
     (case body m of
        (Inl e, m') \<Rightarrow> handler e m'
      | (Inr r, m') \<Rightarrow> (Inr r, m'))"

definition log :: "log_entry \<Rightarrow> ContextManager \<Rightarrow> ContextManager" where
  "log entry m = m\<lparr>logged := logged m @ [entry]\<rparr>"

text \<open>A property read \<open>v.p\<close> as an expression: it throws on \<open>null\<close>.\<close>

definition read_property :: "json \<Rightarrow> string \<Rightarrow> js_error + json option" where
  "read_property v p =
     (case v of JNull \<Rightarrow> Inl (TypeError (''null.'' @ p)) | _ \<Rightarrow> Inr (property v p))"

subsection \<open>Loading (lines 44 to 88)\<close>

text \<open>The extension test of line 67.\<close>

definition recognized :: "string \<Rightarrow> bool" where
  "recognized file =
     (endsWith file ''.yaml'' \<or> endsWith file ''.yml'' \<or> endsWith file ''.json'')"

text \<open>Lines 68 to 77: read one file and parse it by its extension.\<close>

definition readDefinition :: "externals \<Rightarrow> string \<Rightarrow> string \<Rightarrow> js_error + json" where
  "readDefinition ext dir file =
     (let filePath = path_join ext dir file in
      case fs_readFileSync ext filePath of
        Inl e \<Rightarrow> Inl e
      | Inr content \<Rightarrow>
          if endsWith file ''.json'' then JSON_parse ext content else yaml_parse ext content)"

text \<open>
  The loop of lines 66 to 82, with the local \<open>loadedCount\<close> as an argument. Line 79
  reads \<open>contextDef.id\<close> and stores the parsed value under it, whatever the two are. An
  exception leaves the loop at once; the values stored before it stay in the map.
\<close>

fun loadFiles :: "externals \<Rightarrow> string list \<Rightarrow> nat \<Rightarrow> nat js" where
  "loadFiles ext [] loadedCount m = (Inr loadedCount, m)"
| "loadFiles ext (file # files) loadedCount m =
     (if recognized file then
        (case readDefinition ext (contextPath m) file of
           Inl e \<Rightarrow> (Inl e, m)
         | Inr contextDef \<Rightarrow>
             (case read_property contextDef ''id'' of
                Inl e \<Rightarrow> (Inl e, m)
              | Inr key \<Rightarrow>
                  loadFiles ext files (loadedCount + 1)
                    (m\<lparr>contexts := Map_set key contextDef (contexts m)\<rparr>)))
      else loadFiles ext files loadedCount m)"

text \<open>The \<open>try\<close> block of \<open>loadContexts\<close>.\<close>

definition loadContexts_try :: "externals \<Rightarrow> unit js" where
  "loadContexts_try ext m =
     (if \<not> fs_existsSync ext (contextPath m) then
        (Inr (), log (Warn_path_missing (contextPath m)) m)
      else
        (case fs_readdirSync ext (contextPath m) of
           Inl e \<Rightarrow> (Inl e, m)
         | Inr files \<Rightarrow>
             (case loadFiles ext files 0 m of
                (Inl e, m') \<Rightarrow> (Inl e, m')
              | (Inr loadedCount, m') \<Rightarrow>
                  (Inr (), log (Info_loaded loadedCount (contextPath m')) m'))))"

definition loadContexts :: "externals \<Rightarrow> unit js" where
  "loadContexts ext =
     try_catch (loadContexts_try ext) (\<lambda>error m. (Inr (), log (Error_load error) m))"

text \<open>The constructor: an exception of \<open>loadContexts\<close> would be one of \<open>new\<close>.\<close>

definition ContextManager_new :: "externals \<Rightarrow> Connection \<Rightarrow> string \<Rightarrow> js_error + ContextManager" where
  "ContextManager_new ext conn path =
     (case loadContexts ext
             \<lparr>connection = conn, contexts = [], contextPath = path, logged = []\<rparr> of
        (Inl e, m) \<Rightarrow> Inl e
      | (Inr u, m) \<Rightarrow> Inr m)"

subsection \<open>Queries (lines 95 to 138)\<close>

text \<open>
  \<^verbatim>\<open>this.contexts.get(id) || null\<close>: \<open>undefined\<close> and every other falsy value
  become \<open>null\<close>.
\<close>

definition getContext :: "ContextManager \<Rightarrow> string \<Rightarrow> json option" where
  "getContext m i =
     (case Map_get (contexts m) (Some (JStr i)) of
        Some v \<Rightarrow> if truthy v then Some v else None
      | None \<Rightarrow> None)"

definition getAllContexts :: "ContextManager \<Rightarrow> json list" where
  "getAllContexts m = Map_values (contexts m)"

text \<open>
  \<^verbatim>\<open>.filter(context => context.type === type)\<close>: the callback reads a property of
  each value in turn, and \<open>===\<close> with a string holds for that string only.
\<close>

fun filterByType :: "string \<Rightarrow> json list \<Rightarrow> js_error + json list" where
  "filterByType t [] = Inr []"
| "filterByType t (context # rest) =
     (case read_property context ''type'' of
        Inl e \<Rightarrow> Inl e
      | Inr ty \<Rightarrow>
          (case filterByType t rest of
             Inl e \<Rightarrow> Inl e
           | Inr matches \<Rightarrow> Inr (if ty = Some (JStr t) then context # matches else matches)))"

definition getContextsByType :: "ContextManager \<Rightarrow> ContextType \<Rightarrow> js_error + json list" where
  "getContextsByType m t = filterByType (ContextType_value t) (Map_values (contexts m))"

text \<open>
  Lines 127 to 129, \<open>some\<close> on the array of the context: it stops at the first element
  that matches, and \<open>contextCap.toLowerCase()\<close> throws on an element that is not a
  string.
\<close>

fun some_matches :: "externals \<Rightarrow> string \<Rightarrow> json list \<Rightarrow> js_error + bool" where
  "some_matches ext cap [] = Inr False"
| "some_matches ext cap (contextCap # rest) =
     (case contextCap of
        JStr s \<Rightarrow>
          if toLowerCase ext s = toLowerCase ext cap then Inr True
          else some_matches ext cap rest
      | _ \<Rightarrow> Inl (TypeError ''contextCap.toLowerCase()''))"

text \<open>
  Lines 126 to 130, \<open>every\<close> on the requested capabilities: it stops at the first one
  that no element matches. The callback reads \<open>context.capabilities\<close> and calls its
  \<open>some\<close>, which only an array has.
\<close>

fun hasAllCapabilities :: "externals \<Rightarrow> string list \<Rightarrow> json \<Rightarrow> js_error + bool" where
  "hasAllCapabilities ext [] context = Inr True"
| "hasAllCapabilities ext (cap # caps) context =
     (case read_property context ''capabilities'' of
        Inl e \<Rightarrow> Inl e
      | Inr (Some (JArr contextCaps)) \<Rightarrow>
          (case some_matches ext cap contextCaps of
             Inl e \<Rightarrow> Inl e
           | Inr found \<Rightarrow> if found then hasAllCapabilities ext caps context else Inr False)
      | Inr other \<Rightarrow> Inl (TypeError ''context.capabilities.some''))"

text \<open>The loop of lines 125 to 135; \<open>matches\<close> is the array the loop pushes to.\<close>

fun findLoop :: "externals \<Rightarrow> string list \<Rightarrow> json list \<Rightarrow> json list \<Rightarrow> js_error + json list" where
  "findLoop ext caps [] matches = Inr matches"
| "findLoop ext caps (context # rest) matches =
     (case hasAllCapabilities ext caps context of
        Inl e \<Rightarrow> Inl e
      | Inr found \<Rightarrow>
          if found then findLoop ext caps rest (matches @ [context])
          else findLoop ext caps rest matches)"

definition findContextsByCapabilities :: "externals \<Rightarrow> ContextManager \<Rightarrow> string list \<Rightarrow> js_error + json list" where
  "findContextsByCapabilities ext m caps = findLoop ext caps (Map_values (contexts m)) []"

subsection \<open>Registration and the permission hook (lines 147 to 179)\<close>

text \<open>The \<open>try\<close> block of \<open>registerContext\<close>.\<close>

definition registerContext_try :: "externals \<Rightarrow> ContextDefinition \<Rightarrow> PublicKey \<Rightarrow> PublicKey option js" where
  "registerContext_try ext contextDef authority m =
     (case PublicKey_new ext ''G6xptnrkj3Z3JegB3EqJPGqnVBKGLQXTqpEL9kHpMZN5'' of
        Inl e \<Rightarrow> (Inl e, m)
      | Inr newContextId \<Rightarrow>
          (Inr (Some newContextId),
           log (Info_registered (name contextDef) (type' contextDef) newContextId)
             (m\<lparr>contexts :=
                  Map_set (Some (JStr (id' contextDef))) (object_of contextDef) (contexts m)\<rparr>)))"

definition registerContext :: "externals \<Rightarrow> ContextDefinition \<Rightarrow> PublicKey \<Rightarrow> PublicKey option js" where
  "registerContext ext contextDef authority =
     try_catch (registerContext_try ext contextDef authority)
       (\<lambda>error m. (Inr None, log (Error_register (name contextDef) error) m))"

definition checkPermission :: "ContextManager \<Rightarrow> PublicKey \<Rightarrow> string \<Rightarrow> js_error + bool" where
  "checkPermission m agentId contextId = Inr True"

section \<open>Notions used to state the properties\<close>

text \<open>The members of \<open>ContextType\<close>, in the order of the declaration.\<close>

definition ContextType_values :: "ContextType list" where
  "ContextType_values = [DEX, NFT_MARKETPLACE, ORACLE, GOVERNANCE, SOCIAL, IDENTITY, STORAGE]"

text \<open>
  A stored value has type \<open>t\<close> when its \<open>type\<close> is the string of \<open>t\<close>; its type is
  recognized when that holds for one of the seven members.
\<close>

definition has_type :: "ContextType \<Rightarrow> json \<Rightarrow> bool" where
  "has_type t context = (property context ''type'' = Some (JStr (ContextType_value t)))"

definition has_recognized_type :: "json \<Rightarrow> bool" where
  "has_recognized_type context = list_ex (\<lambda>t. has_type t context) ContextType_values"

text \<open>
  The strings in the \<open>capabilities\<close> array of a stored value; whether \<open>capabilities\<close>
  is an array at all; and whether it is an array of strings and nothing else.
\<close>

definition capabilities_of :: "json \<Rightarrow> string list" where
  "capabilities_of context =
     (case property context ''capabilities'' of
        Some (JArr xs) \<Rightarrow> concat (map (\<lambda>x. case x of JStr s \<Rightarrow> [s] | _ \<Rightarrow> []) xs)
      | _ \<Rightarrow> [])"

definition has_capability_array :: "json \<Rightarrow> bool" where
  "has_capability_array context =
     (case property context ''capabilities'' of Some (JArr xs) \<Rightarrow> True | _ \<Rightarrow> False)"

definition has_capability_strings :: "json \<Rightarrow> bool" where
  "has_capability_strings context =
     (property context ''capabilities'' = Some (JArr (map JStr (capabilities_of context))))"

text \<open>
  The values that the files of a listing with a recognized extension denote, in the
  order of the listing, and the map obtained by storing a list of values one after the
  other, each under its \<open>id\<close>.
\<close>

definition definitionsOf :: "externals \<Rightarrow> string \<Rightarrow> string list \<Rightarrow> json list" where
  "definitionsOf ext dir files =
     concat (map (\<lambda>file. case readDefinition ext dir file of Inl e \<Rightarrow> [] | Inr d \<Rightarrow> [d])
                 (filter recognized files))"

definition insertAll :: "json list \<Rightarrow> json js_map \<Rightarrow> json js_map" where
  "insertAll ds cs = fold (\<lambda>d. Map_set (property d ''id'') d) ds cs"

text \<open>
  Every file of the listing with a recognized extension can be read and parsed, and the
  value it denotes is not \<open>null\<close>.
\<close>

definition readable :: "externals \<Rightarrow> string \<Rightarrow> string list \<Rightarrow> bool" where
  "readable ext dir files =
     list_all (\<lambda>file. recognized file \<longrightarrow>
                 (case readDefinition ext dir file of Inl e \<Rightarrow> False | Inr d \<Rightarrow> d \<noteq> JNull)) files"

text \<open>A sequence of calls of \<open>registerContext\<close>, each on the state the previous one left.\<close>

definition registerAll :: "externals \<Rightarrow> (ContextDefinition \<times> PublicKey) list \<Rightarrow> ContextManager \<Rightarrow> ContextManager" where
  "registerAll ext calls m =
     fold (\<lambda>(contextDef, authority) m. snd (registerContext ext contextDef authority m)) calls m"

text \<open>
  The invariant of the map: no key that is compared by value occurs twice, no stored
  value is \<open>null\<close>, and each value stands under its own \<open>id\<close>.
\<close>

definition keyed_by_id :: "json js_map \<Rightarrow> bool" where
  "keyed_by_id cs =
     (distinct (filter (\<lambda>k. \<not> is_reference k) (map fst cs))
      \<and> list_all (\<lambda>(k, d). d \<noteq> JNull \<and> property d ''id'' = k) cs)"

section \<open>Test doubles\<close>

text \<open>
  The two descriptors of \<open>tests/context-manager.test.ts\<close> and stand-ins for the
  libraries, in the manner of the mocks of that test: a directory
  \<open>/path/to/contexts\<close> given by its files and their contents, and a parser that knows
  the contents used in the examples and rejects every other text.
\<close>

definition jupiter :: ContextDefinition where
  "jupiter =
     \<lparr>id' = ''jupiter-dex-v4'', name = ''Jupiter Aggregator'',
      description = ''A liquidity aggregator for Solana'', type' = DEX,
      capabilities = [''token_swaps'', ''route_optimization''],
      endpoint = Some ''https://quote-api.jup.ag/v4'', pubkey = None,
      authRequired = False, schema = None\<rparr>"

definition magiceden :: ContextDefinition where
  "magiceden =
     \<lparr>id' = ''magiceden-v2'', name = ''Magic Eden NFT Marketplace'',
      description = ''NFT marketplace on Solana'', type' = NFT_MARKETPLACE,
      capabilities = [''nft_listing'', ''nft_buying''],
      endpoint = Some ''https://api-mainnet.magiceden.io/v2'', pubkey = None,
      authRequired = False, schema = None\<rparr>"

text \<open>The first descriptor with its capabilities in another case, and with another name.\<close>

definition mixed_case :: ContextDefinition where
  "mixed_case = jupiter\<lparr>capabilities := [''Token_Swaps'', ''Route_Optimization'']\<rparr>"

definition jupiter_v5 :: ContextDefinition where
  "jupiter_v5 = jupiter\<lparr>name := ''Jupiter Aggregator v5''\<rparr>"

text \<open>
  Two documents that do not conform to the interface: one with a type that is not a
  member of \<open>ContextType\<close>, one without capabilities.
\<close>

definition solend :: json where
  "solend =
     JObj [(''id'', JStr ''solend-v1''), (''name'', JStr ''Solend''),
           (''description'', JStr ''Lending protocol on Solana''),
           (''type'', JStr ''lending''),
           (''capabilities'', JArr [JStr ''lending'', JStr ''borrowing'']),
           (''authRequired'', JBool False)]"

definition bare :: json where
  "bare = JObj [(''id'', JStr ''bare-v1''), (''name'', JStr ''Bare''), (''type'', JStr ''dex'')]"

definition test_parse :: "string \<Rightarrow> js_error + json" where
  "test_parse content =
     (if content = ''jupiter'' then Inr (object_of jupiter)
      else if content = ''magiceden'' then Inr (object_of magiceden)
      else if content = ''solend'' then Inr solend
      else if content = ''bare'' then Inr bare
      else if content = ''null'' then Inr JNull
      else if content = ''{}'' then Inr (JObj [])
      else Inl (SyntaxError ''Unexpected end of JSON input''))"

text \<open>
  \<^verbatim>\<open>new PublicKey(s)\<close> of web3.js on a string: the string is decoded as base 58, a
  character outside the alphabet is an error, and the decoded bytes (one zero byte for
  each leading \<open>1\<close>, then the number without leading zeros) must be 32.
\<close>

definition bs58_alphabet :: string where
  "bs58_alphabet = ''123456789ABCDEFGHJKLMNPQRSTUVWXYZabcdefghijkmnopqrstuvwxyz''"

primrec bs58_index :: "char \<Rightarrow> string \<Rightarrow> nat option" where
  "bs58_index c [] = None"
| "bs58_index c (a # as) =
     (if a = c then Some 0 else map_option (\<lambda>i. i + 1) (bs58_index c as))"

primrec bs58_number :: "string \<Rightarrow> nat \<Rightarrow> nat option" where
  "bs58_number [] acc = Some acc"
| "bs58_number (c # cs) acc =
     (case bs58_index c bs58_alphabet of
        None \<Rightarrow> None
      | Some d \<Rightarrow> bs58_number cs (acc * 58 + d))"

fun byteLength :: "nat \<Rightarrow> nat" where
  "byteLength n = (if n = 0 then 0 else byteLength (n div 256) + 1)"

declare byteLength.simps [simp del]

definition web3_PublicKey :: "string \<Rightarrow> js_error + PublicKey" where
  "web3_PublicKey s =
     (case bs58_number s 0 of
        None \<Rightarrow> Inl (Error ''Non-base58 character'')
      | Some n \<Rightarrow>
          if length (takeWhile (\<lambda>c. c = CHR ''1'') s) + byteLength n = 32
          then Inr (PublicKey n) else Inl (Error ''Invalid public key input''))"

definition test_externals :: "(string \<times> string) list \<Rightarrow> externals" where
  "test_externals files =
     \<lparr>fs_existsSync = (\<lambda>p. p = ''/path/to/contexts''),
      fs_readdirSync =
        (\<lambda>p. if p = ''/path/to/contexts'' then Inr (map fst files)
             else Inl (SystemError ''ENOENT'')),
      fs_readFileSync =
        (\<lambda>p. case map_of (map (\<lambda>(f, c). (''/path/to/contexts/'' @ f, c)) files) p of
               Some c \<Rightarrow> Inr c
             | None \<Rightarrow> Inl (SystemError ''ENOENT'')),
      path_join = (\<lambda>dir f. dir @ ''/'' @ f),
      JSON_parse = test_parse,
      yaml_parse = test_parse,
      PublicKey_new = web3_PublicKey,
      String_toLowerCase = map toLowerCase_ascii\<rparr>"

text \<open>The same, with a \<open>PublicKey\<close> constructor that throws.\<close>

definition failing_externals :: externals where
  "failing_externals =
     (test_externals [])\<lparr>PublicKey_new := (\<lambda>s. Inl (Error ''Invalid public key input''))\<rparr>"

definition test_connection :: Connection where
  "test_connection = Connection ''https://api.devnet.solana.com''"

text \<open>The number that the constant of line 153 decodes to.\<close>

definition test_key :: PublicKey where
  "test_key =
     PublicKey 101498880084418397884543933780116463794445146564727358354698190704605255398934"

definition other_key :: PublicKey where
  "other_key = PublicKey 1"

text \<open>A registry holding the given values, each under its \<open>id\<close>, with the given log.\<close>

definition test_manager :: "json list \<Rightarrow> log_entry list \<Rightarrow> ContextManager" where
  "test_manager ds entries =
     \<lparr>connection = test_connection, contexts = map (\<lambda>d. (property d ''id'', d)) ds,
      contextPath = ''/path/to/contexts'', logged = entries\<rparr>"

text \<open>
  Directories: the one of the test; one with a file that does not parse between two that
  do; one where that file comes first; one with two files for the same id; one with a
  document of an unknown type; one with a document without capabilities.
\<close>

definition test_files :: "(string \<times> string) list" where
  "test_files =
     [(''jupiter-dex.yaml'', ''jupiter''), (''magiceden-marketplace.yaml'', ''magiceden''),
      (''test.txt'', ''notes'')]"

definition broken_files :: "(string \<times> string) list" where
  "broken_files =
     [(''jupiter-dex.yaml'', ''jupiter''), (''broken.json'', ''{''),
      (''magiceden-marketplace.yaml'', ''magiceden'')]"

definition broken_first_files :: "(string \<times> string) list" where
  "broken_first_files = [(''broken.json'', ''{''), (''jupiter-dex.yaml'', ''jupiter'')]"

definition duplicate_files :: "(string \<times> string) list" where
  "duplicate_files =
     [(''jupiter-dex.yaml'', ''jupiter''), (''jupiter-copy.yml'', ''jupiter''),
      (''test.txt'', ''notes'')]"

definition lending_files :: "(string \<times> string) list" where
  "lending_files = [(''jupiter-dex.yaml'', ''jupiter''), (''solend.yaml'', ''solend'')]"

definition bare_files :: "(string \<times> string) list" where
  "bare_files = [(''jupiter-dex.yaml'', ''jupiter''), (''bare.json'', ''bare'')]"

text \<open>A directory with a document that is \<open>null\<close>, and one with two empty objects.\<close>

definition null_files :: "(string \<times> string) list" where
  "null_files =
     [(''jupiter-dex.yaml'', ''jupiter''), (''empty.json'', ''null''),
      (''magiceden-marketplace.yaml'', ''magiceden'')]"

definition empty_object_files :: "(string \<times> string) list" where
  "empty_object_files = [(''a.json'', ''{}''), (''b.json'', ''{}'')]"

section \<open>The map\<close>

lemma sameValueZero_string [simp]: "sameValueZero k (Some (JStr i)) \<longleftrightarrow> k = Some (JStr i)"
  by (simp add: sameValueZero_def is_reference_def)


lemma Map_get_None: "k \<notin> fst ` set cs \<Longrightarrow> Map_get cs k = None"
  by (induction cs) (auto simp: sameValueZero_def)

lemma set_Map_set_keys: "fst ` set (Map_set k v cs) = insert k (fst ` set cs)"
  by (induction cs) (auto simp: sameValueZero_def)

lemma set_Map_set_subset: "set (Map_set k v cs) \<subseteq> insert (k, v) (set cs)"
  by (induction cs) auto

lemma Map_set_fresh: "k \<notin> fst ` set cs \<Longrightarrow> Map_set k v cs = cs @ [(k, v)]"
  by (induction cs) (auto simp: sameValueZero_def)

lemma Map_set_reference: "is_reference k \<Longrightarrow> Map_set k v cs = cs @ [(k, v)]"
  by (induction cs) (auto simp: sameValueZero_def)

lemma Map_set_keys:
  "\<not> is_reference k \<Longrightarrow>
   map fst (Map_set k v cs) = (if k \<in> fst ` set cs then map fst cs else map fst cs @ [k])"
  by (induction cs) (auto simp: sameValueZero_def)

lemma distinct_Map_set:
  assumes "distinct (filter (\<lambda>k. \<not> is_reference k) (map fst cs))"
  shows "distinct (filter (\<lambda>k. \<not> is_reference k) (map fst (Map_set k v cs)))"
proof (cases "is_reference k")
  case True
  with assms show ?thesis by (simp add: Map_set_reference)
next
  case False
  with assms show ?thesis by (auto simp: Map_set_keys)
qed

lemma keyed_by_id_Nil: "keyed_by_id []"
  by (simp add: keyed_by_id_def)

lemma keyed_by_id_Map_set:
  assumes "keyed_by_id cs" and "d \<noteq> JNull"
  shows "keyed_by_id (Map_set (property d ''id'') d cs)"
proof -
  have "list_all (\<lambda>(k, d). d \<noteq> JNull \<and> property d ''id'' = k) (Map_set (property d ''id'') d cs)"
    using assms set_Map_set_subset [of "property d ''id''" d cs]
    by (auto simp: keyed_by_id_def list_all_iff)
  with assms(1) show ?thesis
    by (simp add: keyed_by_id_def distinct_Map_set)
qed

lemma keyed_by_id_not_null: "keyed_by_id cs \<Longrightarrow> JNull \<notin> set (Map_values cs)"
  by (auto simp: keyed_by_id_def Map_values_def list_all_iff)


lemma insertAll_keys:
  "fst ` set (insertAll ds cs) = fst ` set cs \<union> (\<lambda>d. property d ''id'') ` set ds"
  by (induction ds arbitrary: cs) (auto simp: insertAll_def set_Map_set_keys)

lemma insertAll_keyed:
  "keyed_by_id cs \<Longrightarrow> JNull \<notin> set ds \<Longrightarrow> keyed_by_id (insertAll ds cs)"
  by (induction ds arbitrary: cs) (auto simp: insertAll_def keyed_by_id_Map_set)

lemma length_insertAll:
  assumes "JNull \<notin> set ds" and "\<forall>d\<in>set ds. \<not> is_reference (property d ''id'')"
  shows "length (insertAll ds []) = card ((\<lambda>d. property d ''id'') ` set ds)"
proof -
  have keys: "fst ` set (insertAll ds []) = (\<lambda>d. property d ''id'') ` set ds"
    using insertAll_keys [of ds "[]"] by simp
  have "keyed_by_id (insertAll ds [])"
    using keyed_by_id_Nil assms(1) by (rule insertAll_keyed)
  then have "distinct (filter (\<lambda>k. \<not> is_reference k) (map fst (insertAll ds [])))"
    by (simp add: keyed_by_id_def)
  moreover have "filter (\<lambda>k. \<not> is_reference k) (map fst (insertAll ds [])) = map fst (insertAll ds [])"
    using keys assms(2) by (auto simp: filter_id_conv)
  ultimately have "distinct (map fst (insertAll ds []))" by simp
  then have "card (set (map fst (insertAll ds []))) = length (map fst (insertAll ds []))"
    by (rule distinct_card)
  with keys show ?thesis by simp
qed

lemma insertAll_distinct:
  "distinct (map (\<lambda>d. property d ''id'') ds) \<Longrightarrow>
   (\<lambda>d. property d ''id'') ` set ds \<inter> fst ` set cs = {} \<Longrightarrow>
   insertAll ds cs = cs @ map (\<lambda>d. (property d ''id'', d)) ds"
proof (induction ds arbitrary: cs)
  case Nil
  show ?case by (simp add: insertAll_def)
next
  case (Cons d ds)
  from Cons.prems have fresh: "property d ''id'' \<notin> fst ` set cs" by auto
  have "insertAll (d # ds) cs = insertAll ds (Map_set (property d ''id'') d cs)"
    by (simp add: insertAll_def)
  also have "\<dots> = insertAll ds (cs @ [(property d ''id'', d)])"
    using fresh by (simp add: Map_set_fresh)
  also have "\<dots> = (cs @ [(property d ''id'', d)]) @ map (\<lambda>d. (property d ''id'', d)) ds"
    using Cons.prems by (intro Cons.IH) auto
  finally show ?case by simp
qed

section \<open>Loading\<close>

lemma read_property_not_null: "v \<noteq> JNull \<Longrightarrow> read_property v p = Inr (property v p)"
  by (cases v) (simp_all add: read_property_def)

lemma read_property_null: "read_property JNull p = Inl (TypeError (''null.'' @ p))"
  by (simp add: read_property_def)

lemma read_property_Inr: "read_property v p = Inr r \<Longrightarrow> v \<noteq> JNull \<and> r = property v p"
  by (cases v) (auto simp: read_property_def)

lemma loadFiles_keyed:
  "keyed_by_id (contexts m) \<Longrightarrow> keyed_by_id (contexts (snd (loadFiles ext files n m)))"
proof (induction files arbitrary: n m)
  case Nil
  then show ?case by simp
next
  case (Cons f fs)
  show ?case
  proof (cases "recognized f")
    case False
    with Cons show ?thesis by simp
  next
    case True
    show ?thesis
    proof (cases "readDefinition ext (contextPath m) f")
      case (Inl e)
      with True Cons.prems show ?thesis by simp
    next
      case (Inr d)
      show ?thesis
      proof (cases "read_property d ''id''")
        case (Inl e)
        with True Inr Cons.prems show ?thesis by simp
      next
        case key: (Inr k)
        then have "d \<noteq> JNull" "k = property d ''id''"
          using read_property_Inr by blast+
        with Cons.prems have "keyed_by_id (contexts (m\<lparr>contexts := Map_set k d (contexts m)\<rparr>))"
          by (simp add: keyed_by_id_Map_set)
        from Cons.IH [OF this] True Inr key show ?thesis by simp
      qed
    qed
  qed
qed

lemma loadFiles_readable:
  "readable ext (contextPath m) files \<Longrightarrow>
   loadFiles ext files n m =
     (Inr (n + length (filter recognized files)),
      m\<lparr>contexts := insertAll (definitionsOf ext (contextPath m) files) (contexts m)\<rparr>)"
proof (induction files arbitrary: n m)
  case Nil
  show ?case by (simp add: insertAll_def definitionsOf_def)
next
  case (Cons f fs)
  show ?case
  proof (cases "recognized f")
    case False
    with Cons show ?thesis by (simp add: readable_def definitionsOf_def)
  next
    case True
    with Cons.prems obtain d where d: "readDefinition ext (contextPath m) f = Inr d" "d \<noteq> JNull"
      by (auto simp: readable_def split: sum.splits)
    let ?m = "m\<lparr>contexts := Map_set (property d ''id'') d (contexts m)\<rparr>"
    from Cons.prems have "readable ext (contextPath ?m) fs"
      by (simp add: readable_def)
    from Cons.IH [OF this, of "n + 1"] True d show ?thesis
      by (simp add: definitionsOf_def insertAll_def read_property_not_null)
  qed
qed

lemma loadFiles_append:
  "loadFiles ext (xs @ ys) n m =
     (case loadFiles ext xs n m of
        (Inl e, m') \<Rightarrow> (Inl e, m')
      | (Inr k, m') \<Rightarrow> loadFiles ext ys k m')"
  by (induction xs arbitrary: n m) (auto split: sum.splits)

lemma loadFiles_failed:
  assumes "recognized f" and "readDefinition ext (contextPath m) f = Inl e"
  shows "loadFiles ext (f # fs) n m = (Inl e, m)"
  using assms by simp

lemma length_definitionsOf:
  "readable ext dir files \<Longrightarrow>
   length (definitionsOf ext dir files) = length (filter recognized files)"
  by (induction files) (auto simp: readable_def definitionsOf_def split: sum.splits)

lemma definitionsOf_not_null:
  "readable ext dir files \<Longrightarrow> JNull \<notin> set (definitionsOf ext dir files)"
  by (induction files) (auto simp: readable_def definitionsOf_def split: sum.splits)

lemma loadContexts_keyed:
  assumes "keyed_by_id (contexts m)"
  shows "keyed_by_id (contexts (snd (loadContexts ext m)))"
proof (cases "fs_existsSync ext (contextPath m)")
  case False
  with assms show ?thesis
    by (simp add: loadContexts_def try_catch_def loadContexts_try_def log_def)
next
  case True
  show ?thesis
  proof (cases "fs_readdirSync ext (contextPath m)")
    case (Inl e)
    with True assms show ?thesis
      by (simp add: loadContexts_def try_catch_def loadContexts_try_def log_def)
  next
    case (Inr files)
    have "keyed_by_id (contexts (snd (loadFiles ext files 0 m)))"
      using assms by (rule loadFiles_keyed)
    with True Inr show ?thesis
      by (auto simp: loadContexts_def try_catch_def loadContexts_try_def log_def
               split: sum.splits prod.splits)
  qed
qed

lemma ContextManager_new_keyed:
  "ContextManager_new ext conn path = Inr m \<Longrightarrow> keyed_by_id (contexts m)"
  using loadContexts_keyed
    [of "\<lparr>connection = conn, contexts = [], contextPath = path, logged = []\<rparr>" ext]
  by (auto simp: ContextManager_new_def keyed_by_id_Nil split: sum.splits prod.splits)

lemma ContextManager_new_readdir:
  assumes "fs_existsSync ext path" and "fs_readdirSync ext path = Inr files"
  shows "ContextManager_new ext conn path =
     (case loadFiles ext files 0
             \<lparr>connection = conn, contexts = [], contextPath = path, logged = []\<rparr> of
        (Inl e, m) \<Rightarrow> Inr (log (Error_load e) m)
      | (Inr n, m) \<Rightarrow> Inr (log (Info_loaded n (contextPath m)) m))"
  using assms
  by (simp add: ContextManager_new_def loadContexts_def try_catch_def loadContexts_try_def
           split: sum.splits prod.splits)

lemma ContextManager_new_returns: "\<exists>m. ContextManager_new ext conn path = Inr m"
  by (auto simp: ContextManager_new_def loadContexts_def try_catch_def loadContexts_try_def
           split: sum.splits prod.splits)

section \<open>Queries and registration\<close>

lemma property_object_of_id: "property (object_of d) ''id'' = Some (JStr (id' d))"
  by (simp add: property_def object_of_def)

lemma object_of_not_null: "object_of d \<noteq> JNull"
  by (simp add: object_of_def)


lemma registerContext_cases:
  "registerContext ext d a m =
     (case PublicKey_new ext ''G6xptnrkj3Z3JegB3EqJPGqnVBKGLQXTqpEL9kHpMZN5'' of
        Inl e \<Rightarrow> (Inr None, log (Error_register (name d) e) m)
      | Inr k \<Rightarrow>
          (Inr (Some k),
           log (Info_registered (name d) (type' d) k)
             (m\<lparr>contexts := Map_set (Some (JStr (id' d))) (object_of d) (contexts m)\<rparr>)))"
  by (simp add: registerContext_def registerContext_try_def try_catch_def split: sum.splits)

lemma registerContext_keyed:
  "keyed_by_id (contexts m) \<Longrightarrow> keyed_by_id (contexts (snd (registerContext ext d a m)))"
  using keyed_by_id_Map_set [of "contexts m" "object_of d"]
  by (simp add: registerContext_cases log_def property_object_of_id object_of_not_null
           split: sum.splits)

lemma registerAll_keyed:
  "keyed_by_id (contexts m) \<Longrightarrow> keyed_by_id (contexts (registerAll ext calls m))"
proof (induction calls arbitrary: m)
  case Nil
  then show ?case by (simp add: registerAll_def)
next
  case (Cons c calls)
  obtain d a where c: "c = (d, a)" by (cases c)
  have "keyed_by_id (contexts (snd (registerContext ext d a m)))"
    using Cons.prems by (rule registerContext_keyed)
  from Cons.IH [OF this] c show ?case by (simp add: registerAll_def)
qed

lemma some_matches_strings:
  "some_matches ext cap (map JStr ss) =
     Inr (\<exists>s\<in>set ss. toLowerCase ext s = toLowerCase ext cap)"
  by (induction ss) auto

lemma hasAllCapabilities_strings:
  assumes "has_capability_strings context"
  shows "hasAllCapabilities ext caps context =
           Inr (\<forall>cap\<in>set caps. \<exists>s\<in>set (capabilities_of context).
                  toLowerCase ext s = toLowerCase ext cap)"
proof -
  from assms have caps: "property context ''capabilities'' = Some (JArr (map JStr (capabilities_of context)))"
    by (simp add: has_capability_strings_def)
  then have "context \<noteq> JNull" by (auto simp: property_def)
  then have read: "read_property context ''capabilities'' = Inr (Some (JArr (map JStr (capabilities_of context))))"
    using caps by (simp add: read_property_not_null)
  show ?thesis
    by (induction caps) (simp_all add: read some_matches_strings)
qed

lemma findLoop_strings:
  "list_all has_capability_strings cs \<Longrightarrow>
   findLoop ext caps cs matches =
     Inr (matches @ filter (\<lambda>context. \<forall>cap\<in>set caps. \<exists>s\<in>set (capabilities_of context).
                                      toLowerCase ext s = toLowerCase ext cap) cs)"
  by (induction cs arbitrary: matches) (simp_all add: hasAllCapabilities_strings)

lemma findLoop_empty: "findLoop ext [] cs matches = Inr (matches @ cs)"
  by (induction cs arbitrary: matches) simp_all

lemma toLowerCase_Token_Swaps:
  "toLowerCase ext ''Token_Swaps'' = toLowerCase ext ''token_swaps''"
  by (simp add: toLowerCase_def toLowerCase_ascii_def is_ascii_def)

lemma filterByType_filter:
  "JNull \<notin> set cs \<Longrightarrow>
   filterByType t cs = Inr (filter (\<lambda>context. property context ''type'' = Some (JStr t)) cs)"
  by (induction cs) (auto simp: read_property_not_null)

lemma ContextType_value_inj: "ContextType_value t = ContextType_value t' \<Longrightarrow> t = t'"
  by (cases t; cases t') simp_all

lemma ContextType_values_complete: "t \<in> set ContextType_values"
  by (cases t) (simp_all add: ContextType_values_def)

lemma has_recognized_type_iff: "has_recognized_type c \<longleftrightarrow> (\<exists>t. has_type t c)"
  using ContextType_values_complete by (auto simp: has_recognized_type_def list_ex_iff)

lemma has_type_unique: "has_type t c \<Longrightarrow> has_type t' c \<Longrightarrow> t = t'"
  by (auto simp: has_type_def dest: ContextType_value_inj)

lemma mset_by_type:
  "mset (concat (map (\<lambda>t. filter (has_type t) cs) ContextType_values)) =
   mset (filter has_recognized_type cs)"
proof (induction cs)
  case Nil
  show ?case by (simp add: ContextType_values_def)
next
  case (Cons c cs)
  show ?case
  proof (cases "has_recognized_type c")
    case False
    then have "\<And>t. \<not> has_type t c" by (simp add: has_recognized_type_iff)
    with False Cons show ?thesis by simp
  next
    case True
    then obtain t where t: "has_type t c" by (auto simp: has_recognized_type_iff)
    then have other: "\<And>t'. has_type t' c \<longleftrightarrow> t' = t" by (auto dest: has_type_unique)
    from Cons True show ?thesis
      by (cases t) (simp_all add: ContextType_values_def other)
  qed
qed

lemma property_object_of_capabilities:
  "property (object_of d) ''capabilities'' = Some (JArr (map JStr (capabilities d)))"
  by (simp add: property_def object_of_def)

lemma property_object_of_type:
  "property (object_of d) ''type'' = Some (JStr (ContextType_value (type' d)))"
  by (simp add: property_def object_of_def)

lemma capabilities_of_object_of: "capabilities_of (object_of d) = capabilities d"
proof -
  have "concat (map (\<lambda>x. case x of JStr s \<Rightarrow> [s] | _ \<Rightarrow> []) (map JStr ss)) = ss" for ss
    by (induction ss) simp_all
  then show ?thesis
    by (simp add: capabilities_of_def property_object_of_capabilities)
qed

lemma has_capability_strings_object_of: "has_capability_strings (object_of d)"
  by (simp add: has_capability_strings_def capabilities_of_object_of
        property_object_of_capabilities)

lemma has_type_object_of: "has_type t (object_of d) \<longleftrightarrow> t = type' d"
  by (auto simp: has_type_def property_object_of_type dest: ContextType_value_inj)

lemma has_recognized_type_object_of: "has_recognized_type (object_of d)"
  by (simp add: has_recognized_type_iff has_type_object_of)

lemma hasAllCapabilities_throws:
  assumes "\<not> has_capability_array context"
  shows "\<exists>e. hasAllCapabilities ext (cap # caps) context = Inl e"
proof (cases "context = JNull")
  case True
  then show ?thesis by (simp add: read_property_null)
next
  case False
  with assms show ?thesis
    by (auto simp: read_property_not_null has_capability_array_def
             split: option.splits json.splits)
qed

lemma findLoop_throws:
  assumes "caps \<noteq> []" and "list_ex (\<lambda>context. \<not> has_capability_array context) cs"
  shows "\<exists>e. findLoop ext caps cs matches = Inl e"
  using assms(2)
proof (induction cs arbitrary: matches)
  case Nil
  then show ?case by simp
next
  case (Cons c cs)
  from assms(1) obtain cap rest where caps: "caps = cap # rest" by (cases caps) auto
  show ?case
  proof (cases "has_capability_array c")
    case False
    then obtain e where "hasAllCapabilities ext caps c = Inl e"
      unfolding caps using hasAllCapabilities_throws by blast
    then show ?thesis by simp
  next
    case True
    with Cons.prems have "list_ex (\<lambda>context. \<not> has_capability_array context) cs" by simp
    from Cons.IH [OF this] show ?thesis
      by (cases "hasAllCapabilities ext caps c") auto
  qed
qed

section \<open>The test doubles, evaluated\<close>

lemma read_property_object_of: "read_property (object_of d) p = Inr (property (object_of d) p)"
  by (simp add: read_property_not_null object_of_not_null)

lemma test_ids:
  "id' jupiter = ''jupiter-dex-v4''" "id' magiceden = ''magiceden-v2''"
  "id' jupiter_v5 = ''jupiter-dex-v4''" "id' mixed_case = ''jupiter-dex-v4''"
  "property solend ''id'' = Some (JStr ''solend-v1'')" "property bare ''id'' = Some (JStr ''bare-v1'')"
  "solend \<noteq> JNull" "bare \<noteq> JNull"
  by (simp_all add: jupiter_def magiceden_def jupiter_v5_def mixed_case_def solend_def bare_def
        property_def)

lemma web3_PublicKey_constant:
  "web3_PublicKey ''G6xptnrkj3Z3JegB3EqJPGqnVBKGLQXTqpEL9kHpMZN5'' = Inr test_key"
  by (simp add: web3_PublicKey_def bs58_alphabet_def byteLength.simps test_key_def)

lemma test_register_jupiter_v5:
  "registerContext (test_externals files) jupiter_v5 authority
     (test_manager [object_of jupiter, object_of magiceden] entries) =
   (Inr (Some test_key),
    test_manager [object_of jupiter_v5, object_of magiceden]
      (entries @ [Info_registered ''Jupiter Aggregator v5'' DEX test_key]))"
  by (simp add: registerContext_cases test_externals_def web3_PublicKey_constant
        test_manager_def log_def jupiter_v5_def jupiter_def magiceden_def
        object_of_def property_def)

lemma test_register_magiceden:
  "registerContext (test_externals files) magiceden authority (test_manager [] entries) =
   (Inr (Some test_key),
    test_manager [object_of magiceden]
      (entries @ [Info_registered ''Magic Eden NFT Marketplace'' NFT_MARKETPLACE test_key]))"
  by (simp add: registerContext_cases test_externals_def web3_PublicKey_constant
        test_manager_def log_def magiceden_def object_of_def property_def)

lemmas load_defs =
  test_externals_def test_parse_def test_connection_def readDefinition_def recognized_def
  endsWith_def read_property_object_of property_object_of_id test_ids read_property_not_null
  sameValueZero_def is_reference_def
  ContextManager_new_def loadContexts_def loadContexts_try_def try_catch_def log_def
  test_manager_def

lemma test_files_loaded:
  "ContextManager_new (test_externals test_files) test_connection ''/path/to/contexts'' =
   Inr (test_manager [object_of jupiter, object_of magiceden]
          [Info_loaded 2 ''/path/to/contexts''])"
  by (simp add: load_defs test_files_def)

text \<open>
  A document that is \<open>null\<close> ends the loading like a file that does not parse: the read
  of its \<open>id\<close> throws inside the same \<open>try\<close>. An empty object is stored under the key
  \<open>undefined\<close>, and a second one replaces it there.
\<close>

lemma null_document_stops_loading:
  "ContextManager_new (test_externals null_files) test_connection ''/path/to/contexts'' =
   Inr (test_manager [object_of jupiter] [Error_load (TypeError ''null.id'')])"
  by (simp add: load_defs null_files_def read_property_null)

lemma empty_objects_share_a_key:
  "ContextManager_new (test_externals empty_object_files) test_connection ''/path/to/contexts'' =
   Inr \<lparr>connection = test_connection, contexts = [(None, JObj [])],
        contextPath = ''/path/to/contexts'', logged = [Info_loaded 2 ''/path/to/contexts'']\<rparr>"
  by (simp add: load_defs empty_object_files_def property_def)

lemma test_types:
  "type' jupiter = DEX" "type' magiceden = NFT_MARKETPLACE" "type' mixed_case = DEX"
  "capabilities jupiter = [''token_swaps'', ''route_optimization'']"
  "capabilities mixed_case = [''Token_Swaps'', ''Route_Optimization'']"
  "capabilities magiceden = [''nft_listing'', ''nft_buying'']"
  by (simp_all add: jupiter_def magiceden_def mixed_case_def)

lemma test_lower:
  "toLowerCase ext ''Token_Swaps'' = ''token_swaps''"
  "toLowerCase ext ''Route_Optimization'' = ''route_optimization''"
  "toLowerCase ext ''token_swaps'' = ''token_swaps''"
  "toLowerCase ext ''route_optimization'' = ''route_optimization''"
  "toLowerCase ext ''nft_listing'' = ''nft_listing''"
  "toLowerCase ext ''nft_buying'' = ''nft_buying''"
  "toLowerCase ext ''NFT_Listing'' = ''nft_listing''"
  by (simp_all add: toLowerCase_def toLowerCase_ascii_def is_ascii_def)

lemma getAllContexts_test_manager: "getAllContexts (test_manager ds entries) = ds"
  by (simp add: getAllContexts_def Map_values_def test_manager_def comp_def)

section \<open>The claims\<close>

subsection \<open>C1: capability matching\<close>

text \<open>
  C1 as stated does not hold for every state of the registry. The loader stores what
  the parser returns, and a document without \<open>capabilities\<close> is such a value. With it
  in the registry a request for one capability throws a \<open>TypeError\<close>, also when
  another record matches.
\<close>

theorem findContextsByCapabilities_every_state_counterexample:
  "ContextManager_new (test_externals bare_files) test_connection ''/path/to/contexts'' =
     Inr (test_manager [object_of jupiter, bare] [Info_loaded 2 ''/path/to/contexts''])
   \<and> property bare ''capabilities'' = None
   \<and> findContextsByCapabilities (test_externals bare_files)
        (test_manager [object_of jupiter, bare] [Info_loaded 2 ''/path/to/contexts''])
        [''token_swaps''] = Inl (TypeError ''context.capabilities.some'')"
proof -
  have 1: "ContextManager_new (test_externals bare_files) test_connection ''/path/to/contexts'' =
     Inr (test_manager [object_of jupiter, bare] [Info_loaded 2 ''/path/to/contexts''])"
    by (simp add: load_defs bare_files_def)
  have 2: "property bare ''capabilities'' = None"
    by (simp add: bare_def property_def)
  have 3: "findContextsByCapabilities (test_externals bare_files)
        (test_manager [object_of jupiter, bare] [Info_loaded 2 ''/path/to/contexts''])
        [''token_swaps''] = Inl (TypeError ''context.capabilities.some'')"
    by (simp add: findContextsByCapabilities_def getAllContexts_test_manager [unfolded getAllContexts_def]
          read_property_object_of property_object_of_capabilities test_types test_lower
          read_property_not_null test_ids 2)
  from 1 2 3 show ?thesis by blast
qed

text \<open>
  C1, amended. An empty request returns every record, in every state. In a state in
  which the \<open>capabilities\<close> of each record is an array of strings,
  \<open>findContextsByCapabilities\<close> returns exactly the records, in the order of
  \<open>getAllContexts\<close>, that have for each requested capability a capability of their own
  equal to it after \<open>toLowerCase\<close> of both; there a record with the capability
  \<open>Token_Swaps\<close> is returned for the request \<open>token_swaps\<close>. When the request is
  not empty and the \<open>capabilities\<close> of some record is not an array, the call throws.
\<close>

theorem findContextsByCapabilities_conjunctive:
  "findContextsByCapabilities ext m [] = Inr (getAllContexts m)
   \<and> (list_all has_capability_strings (getAllContexts m) \<longrightarrow>
        findContextsByCapabilities ext m caps =
          Inr (filter (\<lambda>context. \<forall>cap\<in>set caps. \<exists>contextCap\<in>set (capabilities_of context).
                                   toLowerCase ext contextCap = toLowerCase ext cap)
                      (getAllContexts m))
        \<and> (c \<in> set (getAllContexts m) \<and> ''Token_Swaps'' \<in> set (capabilities_of c) \<longrightarrow>
             (\<exists>matches. findContextsByCapabilities ext m [''token_swaps''] = Inr matches
                         \<and> c \<in> set matches)))
   \<and> (caps \<noteq> [] \<and> list_ex (\<lambda>context. \<not> has_capability_array context) (getAllContexts m) \<longrightarrow>
        (\<exists>e. findContextsByCapabilities ext m caps = Inl e))"
proof (intro conjI impI)
  show "findContextsByCapabilities ext m [] = Inr (getAllContexts m)"
    by (simp add: findContextsByCapabilities_def getAllContexts_def findLoop_empty)
next
  assume wf: "list_all has_capability_strings (getAllContexts m)"
  then have find: "findContextsByCapabilities ext m cs =
      Inr (filter (\<lambda>context. \<forall>cap\<in>set cs. \<exists>contextCap\<in>set (capabilities_of context).
                               toLowerCase ext contextCap = toLowerCase ext cap)
                  (getAllContexts m))" for cs
    by (simp add: findContextsByCapabilities_def getAllContexts_def findLoop_strings)
  show "findContextsByCapabilities ext m caps =
      Inr (filter (\<lambda>context. \<forall>cap\<in>set caps. \<exists>contextCap\<in>set (capabilities_of context).
                               toLowerCase ext contextCap = toLowerCase ext cap)
                  (getAllContexts m))"
    by (rule find)
  assume "c \<in> set (getAllContexts m) \<and> ''Token_Swaps'' \<in> set (capabilities_of c)"
  then show "\<exists>matches. findContextsByCapabilities ext m [''token_swaps''] = Inr matches
                         \<and> c \<in> set matches"
    using toLowerCase_Token_Swaps [of ext] by (auto simp: find)
next
  assume "caps \<noteq> [] \<and> list_ex (\<lambda>context. \<not> has_capability_array context) (getAllContexts m)"
  then show "\<exists>e. findContextsByCapabilities ext m caps = Inl e"
    unfolding findContextsByCapabilities_def getAllContexts_def
    using findLoop_throws by blast
qed

theorem findContextsByCapabilities_conjunctive_witness:
  "list_all has_capability_strings
     (getAllContexts (test_manager [object_of mixed_case, object_of magiceden] []))
   \<and> object_of mixed_case \<in>
       set (getAllContexts (test_manager [object_of mixed_case, object_of magiceden] []))
   \<and> ''Token_Swaps'' \<in> set (capabilities_of (object_of mixed_case))
   \<and> findContextsByCapabilities (test_externals [])
        (test_manager [object_of mixed_case, object_of magiceden] []) [''token_swaps'']
       = Inr [object_of mixed_case]
   \<and> findContextsByCapabilities (test_externals [])
        (test_manager [object_of mixed_case, object_of magiceden] [])
        [''nft_buying'', ''NFT_Listing''] = Inr [object_of magiceden]
   \<and> findContextsByCapabilities (test_externals [])
        (test_manager [object_of mixed_case, object_of magiceden] [])
        [''token_swaps'', ''nft_listing''] = Inr []
   \<and> findContextsByCapabilities (test_externals [])
        (test_manager [object_of mixed_case, object_of magiceden] []) []
       = Inr [object_of mixed_case, object_of magiceden]
   \<and> list_ex (\<lambda>context. \<not> has_capability_array context)
       (getAllContexts (test_manager [object_of jupiter, bare] []))
   \<and> (\<exists>e. findContextsByCapabilities (test_externals [])
             (test_manager [object_of jupiter, bare] []) [''nft_listing''] = Inl e)"
proof -
  let ?m = "test_manager [object_of mixed_case, object_of magiceden] []"
  let ?ext = "test_externals []"
  have all: "getAllContexts ?m = [object_of mixed_case, object_of magiceden]"
    by (rule getAllContexts_test_manager)
  have wf: "list_all has_capability_strings (getAllContexts ?m)"
    by (simp add: all has_capability_strings_object_of)
  have caps: "capabilities_of (object_of mixed_case) = [''Token_Swaps'', ''Route_Optimization'']"
    "capabilities_of (object_of magiceden) = [''nft_listing'', ''nft_buying'']"
    by (simp_all add: capabilities_of_object_of test_types)
  have 1: "findContextsByCapabilities ?ext ?m [''token_swaps''] = Inr [object_of mixed_case]"
    using wf findContextsByCapabilities_conjunctive [of ?ext ?m "[''token_swaps'']" "object_of mixed_case"]
    by (simp add: all caps test_lower)
  have 2: "findContextsByCapabilities ?ext ?m [''nft_buying'', ''NFT_Listing''] = Inr [object_of magiceden]"
    using wf findContextsByCapabilities_conjunctive
      [of ?ext ?m "[''nft_buying'', ''NFT_Listing'']" "object_of mixed_case"]
    by (simp add: all caps test_lower)
  have 3: "findContextsByCapabilities ?ext ?m [''token_swaps'', ''nft_listing''] = Inr []"
    using wf findContextsByCapabilities_conjunctive
      [of ?ext ?m "[''token_swaps'', ''nft_listing'']" "object_of mixed_case"]
    by (simp add: all caps test_lower)
  have 4: "findContextsByCapabilities ?ext ?m [] = Inr [object_of mixed_case, object_of magiceden]"
    using findContextsByCapabilities_conjunctive [of ?ext ?m "[]" "object_of mixed_case"]
    by (simp add: all)
  have 5: "list_ex (\<lambda>context. \<not> has_capability_array context)
       (getAllContexts (test_manager [object_of jupiter, bare] []))"
    by (simp add: getAllContexts_test_manager has_capability_array_def bare_def property_def)
  have 6: "\<exists>e. findContextsByCapabilities ?ext
             (test_manager [object_of jupiter, bare] []) [''nft_listing''] = Inl e"
    using 5 findContextsByCapabilities_conjunctive
      [of ?ext "test_manager [object_of jupiter, bare] []" "[''nft_listing'']" "object_of jupiter"]
    by simp
  from wf 1 2 3 4 5 6 show ?thesis by (simp add: all caps)
qed

subsection \<open>C2: the last registration wins\<close>



subsection \<open>C3: a file that does not parse\<close>

text \<open>
  C3 as stated does not hold. In a directory that lists \<open>broken.json\<close> before
  \<open>jupiter-dex.yaml\<close>, the second file is well formed, yet the registry is empty after
  construction: the exception of the first file leaves the loop, and the handler of
  \<open>loadContexts\<close> only logs it.
\<close>

theorem loadContexts_skips_failed_file_counterexample:
  "readDefinition (test_externals broken_first_files) ''/path/to/contexts'' ''broken.json''
     = Inl (SyntaxError ''Unexpected end of JSON input'')
   \<and> readDefinition (test_externals broken_first_files) ''/path/to/contexts''
        ''jupiter-dex.yaml'' = Inr (object_of jupiter)
   \<and> ContextManager_new (test_externals broken_first_files) test_connection
        ''/path/to/contexts''
     = Inr (test_manager [] [Error_load (SyntaxError ''Unexpected end of JSON input'')])
   \<and> getAllContexts
        (test_manager [] [Error_load (SyntaxError ''Unexpected end of JSON input'')]) = []
   \<and> getContext
        (test_manager [] [Error_load (SyntaxError ''Unexpected end of JSON input'')])
        ''jupiter-dex-v4'' = None"
  by (simp add: load_defs broken_first_files_def getAllContexts_def Map_values_def
        getContext_def)

text \<open>
  C3, amended. If a file with a recognized extension cannot be read or parsed, and
  the files listed before it can, loading stops at that file: the registry holds the
  records of the files listed before it and nothing else (no record for the failed file,
  none for the files after it), the error is logged in place of the loaded count, and the
  constructor returns the object.
\<close>

theorem loadContexts_stops_at_failed_file:
  assumes "fs_existsSync ext path"
    and "fs_readdirSync ext path = Inr (before @ failed # after)"
    and "readable ext path before"
    and "recognized failed"
    and "readDefinition ext path failed = Inl e"
  shows "ContextManager_new ext conn path =
           Inr \<lparr>connection = conn,
                contexts = insertAll (definitionsOf ext path before) [],
                contextPath = path,
                logged = [Error_load e]\<rparr>"
proof -
  let ?m = "\<lparr>connection = conn, contexts = [], contextPath = path, logged = []\<rparr>"
  let ?m' = "?m\<lparr>contexts := insertAll (definitionsOf ext path before) []\<rparr>"
  have before: "loadFiles ext before 0 ?m = (Inr (length (filter recognized before)), ?m')"
    using loadFiles_readable [of ext ?m before 0] assms(3) by simp
  have "loadFiles ext (failed # after) (length (filter recognized before)) ?m' = (Inl e, ?m')"
    using assms(4,5) by (intro loadFiles_failed) simp_all
  with before have "loadFiles ext (before @ failed # after) 0 ?m = (Inl e, ?m')"
    by (simp add: loadFiles_append)
  then show ?thesis
    using ContextManager_new_readdir [OF assms(1,2), of conn] by (simp add: log_def)
qed

theorem loadContexts_stops_at_failed_file_witness:
  "fs_existsSync (test_externals broken_files) ''/path/to/contexts''
   \<and> fs_readdirSync (test_externals broken_files) ''/path/to/contexts'' =
       Inr ([''jupiter-dex.yaml''] @ ''broken.json'' # [''magiceden-marketplace.yaml''])
   \<and> readable (test_externals broken_files) ''/path/to/contexts'' [''jupiter-dex.yaml'']
   \<and> recognized ''broken.json''
   \<and> readDefinition (test_externals broken_files) ''/path/to/contexts'' ''broken.json'' =
       Inl (SyntaxError ''Unexpected end of JSON input'')
   \<and> readDefinition (test_externals broken_files) ''/path/to/contexts''
         ''magiceden-marketplace.yaml'' = Inr (object_of magiceden)
   \<and> ContextManager_new (test_externals broken_files) test_connection ''/path/to/contexts'' =
       Inr (test_manager [object_of jupiter]
              [Error_load (SyntaxError ''Unexpected end of JSON input'')])"
proof -
  let ?ext = "test_externals broken_files"
  have 1: "fs_existsSync ?ext ''/path/to/contexts''"
    by (simp add: test_externals_def)
  have 2: "fs_readdirSync ?ext ''/path/to/contexts'' =
       Inr ([''jupiter-dex.yaml''] @ ''broken.json'' # [''magiceden-marketplace.yaml''])"
    by (simp add: test_externals_def broken_files_def)
  have jup: "readDefinition ?ext ''/path/to/contexts'' ''jupiter-dex.yaml'' = Inr (object_of jupiter)"
    by (simp add: load_defs broken_files_def)
  have 3: "readable ?ext ''/path/to/contexts'' [''jupiter-dex.yaml'']"
    by (simp add: readable_def jup object_of_not_null)
  have 4: "recognized ''broken.json''"
    by (simp add: recognized_def endsWith_def)
  have 5: "readDefinition ?ext ''/path/to/contexts'' ''broken.json'' =
       Inl (SyntaxError ''Unexpected end of JSON input'')"
    by (simp add: load_defs broken_files_def)
  have 6: "readDefinition ?ext ''/path/to/contexts'' ''magiceden-marketplace.yaml'' =
       Inr (object_of magiceden)"
    by (simp add: load_defs broken_files_def)
  have defs: "definitionsOf ?ext ''/path/to/contexts'' [''jupiter-dex.yaml''] = [object_of jupiter]"
    by (simp add: definitionsOf_def jup recognized_def endsWith_def)
  have "ContextManager_new ?ext test_connection ''/path/to/contexts'' =
       Inr (test_manager [object_of jupiter]
              [Error_load (SyntaxError ''Unexpected end of JSON input'')])"
    using loadContexts_stops_at_failed_file [OF 1 2 3 4 5, of test_connection]
    by (simp add: defs insertAll_def test_manager_def)
  with 1 2 3 4 5 6 show ?thesis by blast
qed

subsection \<open>C4: the loaded count\<close>

text \<open>
  C4 as stated does not hold. A directory with two recognized files, both parseable, and
  one unrecognized file gives a loaded count of 2 and a registry of one record when the
  two files carry the same id: the second \<open>set\<close> replaces the record of the first.
\<close>

theorem loadContexts_one_record_per_file_counterexample:
  "length (filter recognized (map fst duplicate_files)) = 2
   \<and> readable (test_externals duplicate_files) ''/path/to/contexts'' (map fst duplicate_files)
   \<and> ContextManager_new (test_externals duplicate_files) test_connection ''/path/to/contexts''
       = Inr (test_manager [object_of jupiter] [Info_loaded 2 ''/path/to/contexts''])
   \<and> length (getAllContexts
        (test_manager [object_of jupiter] [Info_loaded 2 ''/path/to/contexts''])) = 1"
  by (simp add: load_defs duplicate_files_def readable_def getAllContexts_def Map_values_def
        object_of_not_null)

text \<open>
  C4, amended. For a directory whose files with a recognized extension, N of them,
  can all be read and parsed to a value other than \<open>null\<close>, whatever other files it
  lists, the constructor returns a registry whose only log entry is the loaded count N.
  The registry holds one record for each distinct id among the N descriptors (ids being
  strings, or other values compared by value); when their ids are pairwise distinct it
  holds the N descriptors themselves, in the order of the listing.
\<close>

theorem loadContexts_loaded_count:
  assumes "fs_existsSync ext path"
    and "fs_readdirSync ext path = Inr files"
    and "readable ext path files"
  shows "\<exists>m. ContextManager_new ext conn path = Inr m
           \<and> logged m = [Info_loaded (length (filter recognized files)) path]
           \<and> length (definitionsOf ext path files) = length (filter recognized files)
           \<and> contexts m = insertAll (definitionsOf ext path files) []
           \<and> (list_all (\<lambda>d. \<not> is_reference (property d ''id'')) (definitionsOf ext path files)
                \<longrightarrow> length (getAllContexts m) =
                      card ((\<lambda>d. property d ''id'') ` set (definitionsOf ext path files)))
           \<and> (distinct (map (\<lambda>d. property d ''id'') (definitionsOf ext path files)) \<longrightarrow>
                getAllContexts m = definitionsOf ext path files
                \<and> length (getAllContexts m) = length (filter recognized files))"
proof -
  let ?m = "\<lparr>connection = conn, contexts = [], contextPath = path, logged = []\<rparr>"
  let ?ds = "definitionsOf ext path files"
  let ?n = "length (filter recognized files)"
  let ?m' = "\<lparr>connection = conn, contexts = insertAll ?ds [], contextPath = path,
              logged = [Info_loaded ?n path]\<rparr>"
  have "loadFiles ext files 0 ?m = (Inr ?n, ?m\<lparr>contexts := insertAll ?ds []\<rparr>)"
    using loadFiles_readable [of ext ?m files 0] assms(3) by simp
  then have new: "ContextManager_new ext conn path = Inr ?m'"
    using ContextManager_new_readdir [OF assms(1,2), of conn] by (simp add: log_def)
  have n: "length ?ds = ?n"
    using assms(3) by (rule length_definitionsOf)
  have nn: "JNull \<notin> set ?ds"
    using assms(3) by (rule definitionsOf_not_null)
  have card: "length (getAllContexts ?m') = card ((\<lambda>d. property d ''id'') ` set ?ds)"
    if "list_all (\<lambda>d. \<not> is_reference (property d ''id'')) ?ds"
    using length_insertAll [OF nn] that
    by (simp add: getAllContexts_def Map_values_def list_all_iff)
  have "getAllContexts ?m' = ?ds" if "distinct (map (\<lambda>d. property d ''id'') ?ds)"
    using insertAll_distinct [OF that, of "[]"]
    by (simp add: getAllContexts_def Map_values_def comp_def)
  with new n card show ?thesis by simp
qed

theorem loadContexts_loaded_count_witness:
  "fs_existsSync (test_externals test_files) ''/path/to/contexts''
   \<and> fs_readdirSync (test_externals test_files) ''/path/to/contexts'' =
       Inr [''jupiter-dex.yaml'', ''magiceden-marketplace.yaml'', ''test.txt'']
   \<and> readable (test_externals test_files) ''/path/to/contexts''
        [''jupiter-dex.yaml'', ''magiceden-marketplace.yaml'', ''test.txt'']
   \<and> definitionsOf (test_externals test_files) ''/path/to/contexts''
        [''jupiter-dex.yaml'', ''magiceden-marketplace.yaml'', ''test.txt'']
       = [object_of jupiter, object_of magiceden]
   \<and> (\<exists>m. ContextManager_new (test_externals test_files) test_connection
               ''/path/to/contexts'' = Inr m
          \<and> logged m = [Info_loaded 2 ''/path/to/contexts'']
          \<and> getAllContexts m = [object_of jupiter, object_of magiceden]
          \<and> length (getAllContexts m) = 2)"
proof -
  let ?ext = "test_externals test_files"
  let ?files = "[''jupiter-dex.yaml'', ''magiceden-marketplace.yaml'', ''test.txt'']"
  have 1: "fs_existsSync ?ext ''/path/to/contexts''"
    by (simp add: test_externals_def)
  have 2: "fs_readdirSync ?ext ''/path/to/contexts'' = Inr ?files"
    by (simp add: test_externals_def test_files_def)
  have rec: "filter recognized ?files = [''jupiter-dex.yaml'', ''magiceden-marketplace.yaml'']"
    by (simp add: recognized_def endsWith_def)
  have rd: "readDefinition ?ext ''/path/to/contexts'' ''jupiter-dex.yaml'' = Inr (object_of jupiter)"
    "readDefinition ?ext ''/path/to/contexts'' ''magiceden-marketplace.yaml'' =
       Inr (object_of magiceden)"
    by (simp_all add: load_defs test_files_def)
  have 3: "readable ?ext ''/path/to/contexts'' ?files"
    by (simp add: readable_def rd object_of_not_null) (simp add: recognized_def endsWith_def)
  have defs: "definitionsOf ?ext ''/path/to/contexts'' ?files = [object_of jupiter, object_of magiceden]"
    by (simp add: definitionsOf_def rd recognized_def endsWith_def)
  have ids: "distinct (map (\<lambda>d. property d ''id'') [object_of jupiter, object_of magiceden])"
    by (simp add: property_object_of_id test_ids)
  have "\<exists>m. ContextManager_new ?ext test_connection ''/path/to/contexts'' = Inr m
          \<and> logged m = [Info_loaded 2 ''/path/to/contexts'']
          \<and> getAllContexts m = [object_of jupiter, object_of magiceden]
          \<and> length (getAllContexts m) = 2"
    using loadContexts_loaded_count [OF 1 2 3, of test_connection] ids
    unfolding defs rec by auto
  with 1 2 3 defs show ?thesis by blast
qed

subsection \<open>C5: listing by type\<close>

text \<open>
  C5 as stated does not hold for every state of the registry. The loader stores what
  the parser returns, and a document whose \<open>type\<close> is \<open>lending\<close> is such a value:
  it is in \<open>getAllContexts\<close> and in the result of \<open>getContextsByType\<close> for none of
  the seven types.
\<close>

theorem getContextsByType_partition_counterexample:
  "ContextManager_new (test_externals lending_files) test_connection ''/path/to/contexts'' =
     Inr (test_manager [object_of jupiter, solend] [Info_loaded 2 ''/path/to/contexts''])
   \<and> getAllContexts (test_manager [object_of jupiter, solend] [Info_loaded 2 ''/path/to/contexts''])
       = [object_of jupiter, solend]
   \<and> property solend ''type'' = Some (JStr ''lending'')
   \<and> map (getContextsByType
             (test_manager [object_of jupiter, solend] [Info_loaded 2 ''/path/to/contexts'']))
         ContextType_values
       = [Inr [object_of jupiter], Inr [], Inr [], Inr [], Inr [], Inr [], Inr []]"
proof -
  have 1: "ContextManager_new (test_externals lending_files) test_connection ''/path/to/contexts'' =
     Inr (test_manager [object_of jupiter, solend] [Info_loaded 2 ''/path/to/contexts''])"
    by (simp add: load_defs lending_files_def)
  have 2: "property solend ''type'' = Some (JStr ''lending'')"
    by (simp add: solend_def property_def)
  have 3: "map (getContextsByType
             (test_manager [object_of jupiter, solend] [Info_loaded 2 ''/path/to/contexts'']))
         ContextType_values
       = [Inr [object_of jupiter], Inr [], Inr [], Inr [], Inr [], Inr [], Inr []]"
    by (simp add: ContextType_values_def getContextsByType_def
          getAllContexts_test_manager [unfolded getAllContexts_def]
          read_property_object_of property_object_of_type test_types
          read_property_not_null test_ids 2)
  from 1 2 3 show ?thesis by (simp add: getAllContexts_test_manager)
qed

text \<open>
  C5, amended. In every state that the constructor followed by any sequence of
  registrations produces, no stored value is \<open>null\<close>; and in a state without a stored
  \<open>null\<close>, \<open>getContextsByType m t\<close> is the subsequence of \<open>getAllContexts m\<close> of the
  records of type \<open>t\<close>. The results for the seven types together hold each record of
  a recognized type as often as \<open>getAllContexts m\<close> does, each in the result of exactly
  one type, and they hold no record of another type: they partition
  \<open>getAllContexts m\<close> when every record has a recognized type.
\<close>

theorem getContextsByType_partition:
  "(ContextManager_new ext conn path = Inr m0 \<longrightarrow>
      JNull \<notin> set (getAllContexts (registerAll ext calls m0)))
   \<and> (JNull \<notin> set (getAllContexts m) \<longrightarrow>
        getContextsByType m t = Inr (filter (has_type t) (getAllContexts m))
        \<and> map (getContextsByType m) ContextType_values
            = map (\<lambda>t'. Inr (filter (has_type t') (getAllContexts m))) ContextType_values
        \<and> mset (concat (map (\<lambda>t'. filter (has_type t') (getAllContexts m)) ContextType_values))
            = mset (filter has_recognized_type (getAllContexts m))
        \<and> (list_all has_recognized_type (getAllContexts m) \<longrightarrow>
             mset (concat (map (\<lambda>t'. filter (has_type t') (getAllContexts m)) ContextType_values))
               = mset (getAllContexts m))
        \<and> distinct ContextType_values
        \<and> (\<forall>c\<in>set (getAllContexts m).
             (has_recognized_type c \<longrightarrow>
                (\<exists>!t'. t' \<in> set ContextType_values
                       \<and> c \<in> set (filter (has_type t') (getAllContexts m))))
             \<and> (\<not> has_recognized_type c \<longrightarrow>
                  (\<forall>t'. c \<notin> set (filter (has_type t') (getAllContexts m))))))"
proof (intro conjI impI ballI)
  assume "ContextManager_new ext conn path = Inr m0"
  then have "keyed_by_id (contexts m0)"
    by (rule ContextManager_new_keyed)
  then have "keyed_by_id (contexts (registerAll ext calls m0))"
    by (rule registerAll_keyed)
  then show "JNull \<notin> set (getAllContexts (registerAll ext calls m0))"
    unfolding getAllContexts_def by (rule keyed_by_id_not_null)
next
  assume "JNull \<notin> set (getAllContexts m)"
  then show "getContextsByType m t = Inr (filter (has_type t) (getAllContexts m))"
    by (simp add: getContextsByType_def getAllContexts_def filterByType_filter has_type_def [abs_def])
next
  assume "JNull \<notin> set (getAllContexts m)"
  then show "map (getContextsByType m) ContextType_values
            = map (\<lambda>t'. Inr (filter (has_type t') (getAllContexts m))) ContextType_values"
    by (simp add: getContextsByType_def getAllContexts_def filterByType_filter has_type_def [abs_def])
next
  show partition: "mset (concat (map (\<lambda>t'. filter (has_type t') (getAllContexts m)) ContextType_values))
            = mset (filter has_recognized_type (getAllContexts m))"
    by (rule mset_by_type)
  assume "list_all has_recognized_type (getAllContexts m)"
  then have "filter has_recognized_type (getAllContexts m) = getAllContexts m"
    by (simp add: list_all_iff)
  with partition show "mset (concat (map (\<lambda>t'. filter (has_type t') (getAllContexts m)) ContextType_values))
               = mset (getAllContexts m)"
    by simp
next
  show "distinct ContextType_values"
    by (simp add: ContextType_values_def)
next
  fix c
  assume c: "c \<in> set (getAllContexts m)" and "has_recognized_type c"
  then obtain t0 where "has_type t0 c" by (auto simp: has_recognized_type_iff)
  then have "\<And>t'. has_type t' c \<longleftrightarrow> t' = t0" by (auto dest: has_type_unique)
  with c show "\<exists>!t'. t' \<in> set ContextType_values \<and> c \<in> set (filter (has_type t') (getAllContexts m))"
    using ContextType_values_complete by auto
next
  fix c
  assume "c \<in> set (getAllContexts m)" and "\<not> has_recognized_type c"
  then show "\<forall>t'. c \<notin> set (filter (has_type t') (getAllContexts m))"
    by (simp add: has_recognized_type_iff)
qed

theorem getContextsByType_partition_witness:
  "JNull \<notin> set (getAllContexts (test_manager [object_of jupiter, object_of magiceden, solend] []))
   \<and> getContextsByType (test_manager [object_of jupiter, object_of magiceden, solend] []) DEX
       = Inr [object_of jupiter]
   \<and> getContextsByType (test_manager [object_of jupiter, object_of magiceden, solend] [])
        NFT_MARKETPLACE = Inr [object_of magiceden]
   \<and> getContextsByType (test_manager [object_of jupiter, object_of magiceden, solend] []) ORACLE
       = Inr []
   \<and> has_recognized_type (object_of jupiter) \<and> \<not> has_recognized_type solend
   \<and> (\<exists>!t'. t' \<in> set ContextType_values
          \<and> object_of jupiter \<in> set (filter (has_type t')
               (getAllContexts (test_manager [object_of jupiter, object_of magiceden, solend] []))))
   \<and> (\<forall>t'. solend \<notin> set (filter (has_type t')
               (getAllContexts (test_manager [object_of jupiter, object_of magiceden, solend] []))))
   \<and> ContextManager_new (test_externals test_files) test_connection ''/path/to/contexts'' =
       Inr (test_manager [object_of jupiter, object_of magiceden]
              [Info_loaded 2 ''/path/to/contexts''])
   \<and> JNull \<notin> set (getAllContexts
        (registerAll (test_externals test_files) [(jupiter_v5, other_key)]
           (test_manager [object_of jupiter, object_of magiceden]
              [Info_loaded 2 ''/path/to/contexts''])))"
proof -
  let ?m = "test_manager [object_of jupiter, object_of magiceden, solend] []"
  have all: "getAllContexts ?m = [object_of jupiter, object_of magiceden, solend]"
    by (rule getAllContexts_test_manager)
  have nn: "JNull \<notin> set (getAllContexts ?m)"
    unfolding all using object_of_not_null [of jupiter] object_of_not_null [of magiceden] test_ids(7)
    by auto
  have lending: "\<And>t'. \<not> has_type t' solend"
    subgoal for t' by (cases t') (simp_all add: has_type_def solend_def property_def)
    done
  have rec: "has_recognized_type (object_of jupiter)" "\<not> has_recognized_type solend"
    using lending has_recognized_type_object_of [of jupiter]
    by (simp_all add: has_recognized_type_iff)
  have 1: "getContextsByType ?m DEX = Inr [object_of jupiter]"
    using nn getContextsByType_partition [of _ _ _ _ _ ?m DEX]
    by (simp add: all has_type_object_of test_types lending)
  have 2: "getContextsByType ?m NFT_MARKETPLACE = Inr [object_of magiceden]"
    using nn getContextsByType_partition [of _ _ _ _ _ ?m NFT_MARKETPLACE]
    by (simp add: all has_type_object_of test_types lending)
  have 3: "getContextsByType ?m ORACLE = Inr []"
    using nn getContextsByType_partition [of _ _ _ _ _ ?m ORACLE]
    by (simp add: all has_type_object_of test_types lending)
  have 4: "\<exists>!t'. t' \<in> set ContextType_values
          \<and> object_of jupiter \<in> set (filter (has_type t') (getAllContexts ?m))"
    using nn rec(1) getContextsByType_partition [of _ _ _ _ _ ?m DEX] all by simp
  have 5: "\<forall>t'. solend \<notin> set (filter (has_type t') (getAllContexts ?m))"
    using nn rec(2) getContextsByType_partition [of _ _ _ _ _ ?m DEX] all by simp
  have 6: "JNull \<notin> set (getAllContexts
        (registerAll (test_externals test_files) [(jupiter_v5, other_key)]
           (test_manager [object_of jupiter, object_of magiceden]
              [Info_loaded 2 ''/path/to/contexts''])))"
    using test_files_loaded
      getContextsByType_partition
        [where ext = "test_externals test_files" and conn = test_connection
           and path = "''/path/to/contexts''"
           and ?m0.0 = "test_manager [object_of jupiter, object_of magiceden]
                          [Info_loaded 2 ''/path/to/contexts'']"
           and calls = "[(jupiter_v5, other_key)]"]
    by blast
  from nn 1 2 3 rec 4 5 test_files_loaded 6 show ?thesis by blast
qed

subsection \<open>C6: an id that is not there\<close>

text \<open>
  C6. For an id under which the registry holds no record, \<open>getContext\<close> returns
  \<open>null\<close>. The method has no statement that throws, so its result has no alternative
  for an exception.
\<close>

theorem getContext_absent:
  "Some (JStr i) \<notin> fst ` set (contexts m) \<Longrightarrow> getContext m i = None"
  by (simp add: getContext_def Map_get_None)

theorem getContext_absent_witness:
  "Some (JStr ''non-existent'') \<notin>
      fst ` set (contexts (test_manager [object_of jupiter, object_of magiceden] []))
   \<and> getContext (test_manager [object_of jupiter, object_of magiceden] []) ''non-existent'' = None"
proof -
  have "Some (JStr ''non-existent'') \<notin>
      fst ` set (contexts (test_manager [object_of jupiter, object_of magiceden] []))"
    by (simp add: test_manager_def property_object_of_id test_ids)
  then show ?thesis
    using getContext_absent
      [of "''non-existent''" "test_manager [object_of jupiter, object_of magiceden] []"]
    by blast
qed

subsection \<open>C7: a directory that does not exist\<close>

text \<open>
  C7. When the path does not exist, the constructor returns the object, with no
  record, and the log holds the warning about the path and nothing else.
\<close>

theorem ContextManager_new_missing_directory:
  "\<not> fs_existsSync ext path \<Longrightarrow>
   ContextManager_new ext conn path =
     Inr \<lparr>connection = conn, contexts = [], contextPath = path,
          logged = [Warn_path_missing path]\<rparr>"
  by (simp add: ContextManager_new_def loadContexts_def try_catch_def loadContexts_try_def
        log_def)

theorem ContextManager_new_missing_directory_witness:
  "\<not> fs_existsSync (test_externals test_files) ''/no/such/path''
   \<and> ContextManager_new (test_externals test_files) test_connection ''/no/such/path'' =
       Inr \<lparr>connection = test_connection, contexts = [], contextPath = ''/no/such/path'',
            logged = [Warn_path_missing ''/no/such/path'']\<rparr>"
proof -
  have "\<not> fs_existsSync (test_externals test_files) ''/no/such/path''"
    by (simp add: test_externals_def)
  then show ?thesis
    using ContextManager_new_missing_directory
      [of "test_externals test_files" "''/no/such/path''" test_connection]
    by blast
qed

subsection \<open>C8: registration does not throw\<close>

text \<open>
  C8. For every record, authority and state, and whatever the libraries do,
  \<open>registerContext\<close> returns a value and does not throw. When the statement in its
  \<open>try\<close> block that can throw does, the result is \<open>null\<close>, the error is logged
  and the registry is as it was.
\<close>

theorem registerContext_never_throws:
  "(\<exists>result m'. registerContext ext contextDef authority m = (Inr result, m'))
   \<and> (PublicKey_new ext ''G6xptnrkj3Z3JegB3EqJPGqnVBKGLQXTqpEL9kHpMZN5'' = Inl e \<longrightarrow>
        registerContext ext contextDef authority m =
          (Inr None, m\<lparr>logged := logged m @ [Error_register (name contextDef) e]\<rparr>))"
  by (simp add: registerContext_cases log_def split: sum.splits)

theorem registerContext_never_throws_witness:
  "PublicKey_new failing_externals ''G6xptnrkj3Z3JegB3EqJPGqnVBKGLQXTqpEL9kHpMZN5'' =
     Inl (Error ''Invalid public key input'')
   \<and> registerContext failing_externals magiceden other_key (test_manager [object_of jupiter] []) =
       (Inr None,
        test_manager [object_of jupiter]
          [Error_register ''Magic Eden NFT Marketplace'' (Error ''Invalid public key input'')])"
proof -
  have 1: "PublicKey_new failing_externals ''G6xptnrkj3Z3JegB3EqJPGqnVBKGLQXTqpEL9kHpMZN5'' =
     Inl (Error ''Invalid public key input'')"
    by (simp add: failing_externals_def test_externals_def)
  have "registerContext failing_externals magiceden other_key (test_manager [object_of jupiter] []) =
       (Inr None,
        test_manager [object_of jupiter]
          [Error_register ''Magic Eden NFT Marketplace'' (Error ''Invalid public key input'')])"
    using 1 registerContext_never_throws
      [of failing_externals magiceden other_key "test_manager [object_of jupiter] []"
          "Error ''Invalid public key input''"]
    by (simp add: test_manager_def magiceden_def)
  with 1 show ?thesis by blast
qed

subsection \<open>C9: the permission hook\<close>

text \<open>C9. \<open>checkPermission\<close> returns true for every agent and every context id.\<close>

theorem checkPermission_always_true:
  "checkPermission m agentId contextId = Inr True"
  by (simp add: checkPermission_def)

subsection \<open>C10: the returned key\<close>

text \<open>
  C10. A call of \<open>registerContext\<close> that returns a key returns the key constructed
  from the constant \<open>G6xptnrkj3Z3JegB3EqJPGqnVBKGLQXTqpEL9kHpMZN5\<close>, and so does every
  other such call, whatever its record, its authority and its state.
\<close>

theorem registerContext_fixed_identifier:
  "registerContext ext contextDef authority m = (Inr (Some k), m') \<Longrightarrow>
   PublicKey_new ext ''G6xptnrkj3Z3JegB3EqJPGqnVBKGLQXTqpEL9kHpMZN5'' = Inr k
   \<and> (\<forall>contextDef2 authority2 m2 k2 m2'.
         registerContext ext contextDef2 authority2 m2 = (Inr (Some k2), m2') \<longrightarrow> k2 = k)"
  by (auto simp: registerContext_cases split: sum.splits)

theorem registerContext_fixed_identifier_witness:
  "registerContext (test_externals []) jupiter_v5 other_key
     (test_manager [object_of jupiter, object_of magiceden] []) =
     (Inr (Some test_key),
      test_manager [object_of jupiter_v5, object_of magiceden]
        [Info_registered ''Jupiter Aggregator v5'' DEX test_key])
   \<and> registerContext (test_externals []) magiceden test_key (test_manager [] []) =
       (Inr (Some test_key),
        test_manager [object_of magiceden]
          [Info_registered ''Magic Eden NFT Marketplace'' NFT_MARKETPLACE test_key])
   \<and> PublicKey_new (test_externals []) ''G6xptnrkj3Z3JegB3EqJPGqnVBKGLQXTqpEL9kHpMZN5'' =
       Inr test_key
   \<and> jupiter_v5 \<noteq> magiceden \<and> other_key \<noteq> test_key"
proof -
  have 1: "registerContext (test_externals []) jupiter_v5 other_key
         (test_manager [object_of jupiter, object_of magiceden] []) =
     (Inr (Some test_key),
      test_manager [object_of jupiter_v5, object_of magiceden]
        [Info_registered ''Jupiter Aggregator v5'' DEX test_key])"
    using test_register_jupiter_v5 [of "[]" other_key "[]"] by simp
  have 2: "registerContext (test_externals []) magiceden test_key (test_manager [] []) =
       (Inr (Some test_key),
        test_manager [object_of magiceden]
          [Info_registered ''Magic Eden NFT Marketplace'' NFT_MARKETPLACE test_key])"
    using test_register_magiceden [of "[]" test_key "[]"] by simp
  have 3: "PublicKey_new (test_externals []) ''G6xptnrkj3Z3JegB3EqJPGqnVBKGLQXTqpEL9kHpMZN5'' =
       Inr test_key"
    using registerContext_fixed_identifier [OF 1] by blast
  have 4: "jupiter_v5 \<noteq> magiceden" "other_key \<noteq> test_key"
    by (simp_all add: jupiter_v5_def jupiter_def magiceden_def other_key_def test_key_def)
  from 1 2 3 4 show ?thesis by blast
qed

end
